theory Spec2Isabelle
  imports Complex_Main "HOL-Library.Sublist"
begin

section \<open>Data model\<close>

text \<open>
  Exceptions are values. \<open>IndexError\<close>, \<open>ValueError\<close> and \<open>AttributeError\<close> are the
  Python exceptions the two source files can raise themselves; \<open>ConfigurationError\<close>,
  \<open>AxisMismatchError\<close> and \<open>InputFormatError\<close> are the names of the specification's
  taxonomy, which only the stages of \<open>Raw_Processing\<close> could raise.
\<close>

datatype error = IndexError | ValueError | AttributeError
  | ConfigurationError | AxisMismatchError | InputFormatError

text \<open>
  The matrix entries are numpy floats (binary64). The embedding keeps the entry type
  \<open>'a\<close> abstract: nothing below depends on how the entries add or divide, except
  through the two operations handed to \<open>np_mean\<close>. Those operations are given twice:
  exactly, on the reals, and as binary64 does them, each result rounded
  (\<open>float64_add\<close>, \<open>float64_div_count\<close>).
\<close>

type_synonym 'a matrix = "'a list list"
type_synonym 'a axes_pair = "'a list \<times> 'a list"

text \<open>The \<open>CIURaw\<close> object, as far as the two source files read it.\<close>

record 'a CIURaw =
  rawdata :: "'a matrix"
  dt_axis :: "'a list"
  cv_axis :: "'a list"
  raw_filename :: string
  filepath :: string

text \<open>The \<open>Parameters\<close> object, as far as \<open>process_raw_obj\<close> reads it.\<close>

record 'a Parameters =
  interpolation_bins :: "int option"
  smoothing_window :: "int option"
  smoothing_iterations :: int
  cropping_window_values :: "'a list option"
  save_output_csv :: bool

text \<open>
  \<open>CIUAnalysisObj\<close>. The first fifteen fields are the attributes set by \<open>__init__\<close>;
  \<open>params\<close>, \<open>raw_obj_list\<close> and \<open>filename\<close> are attached to the object later by
  \<open>CIU2_Main\<close>, so they are optional here: \<open>None\<close> means the attribute was
  never set.
\<close>

record 'a CIUAnalysisObj =
  raw_obj :: "'a CIURaw"
  ciu_data :: "'a matrix"
  axes :: "'a axes_pair"
  gauss_params :: "'a list list option"
  gauss_baselines :: "'a list option"
  gauss_amplitudes :: "'a list option"
  gauss_centroids :: "'a list option"
  gauss_widths :: "'a list option"
  gauss_fwhms :: "'a list option"
  gauss_adj_r2s :: "'a list option"
  gauss_fits :: "'a list list option"
  gauss_covariances :: "'a list list list option"
  gauss_r2s :: "'a list option"
  gauss_resolutions :: "'a list option"
  gauss_fit_stats :: "'a list list option"
  params :: "'a Parameters option"
  raw_obj_list :: "'a CIURaw list option"
  filename :: "string option"

section \<open>CIU\_analysis\_obj.py\<close>

text \<open>Python's \<open>xs[i]\<close> for a literal index \<open>i \<ge> 0\<close>: out of range raises.\<close>

definition py_index :: "'a list \<Rightarrow> nat \<Rightarrow> error + 'a" where
  "py_index xs i = (if i < length xs then Inr (xs ! i) else Inl IndexError)"

text \<open>A list comprehension whose body may raise: the first exception ends it.\<close>

fun comprehension :: "('a \<Rightarrow> error + 'b) \<Rightarrow> 'a list \<Rightarrow> error + 'b list" where
  "comprehension f [] = Inr []"
| "comprehension f (x # xs) =
     (case f x of
        Inl e \<Rightarrow> Inl e
      | Inr y \<Rightarrow> (case comprehension f xs of Inl e \<Rightarrow> Inl e | Inr ys \<Rightarrow> Inr (y # ys)))"

definition init_gauss_lists ::
  "'a CIUAnalysisObj \<Rightarrow> 'a list list \<Rightarrow> error + 'a CIUAnalysisObj" where
  "init_gauss_lists self gp =
     (case comprehension (\<lambda>x. py_index x 0) gp of Inl e \<Rightarrow> Inl e | Inr bs \<Rightarrow>
     (case comprehension (\<lambda>x. py_index x 1) gp of Inl e \<Rightarrow> Inl e | Inr ams \<Rightarrow>
     (case comprehension (\<lambda>x. py_index x 2) gp of Inl e \<Rightarrow> Inl e | Inr cs \<Rightarrow>
     (case comprehension (\<lambda>x. py_index x 3) gp of Inl e \<Rightarrow> Inl e | Inr ws \<Rightarrow>
        Inr (self\<lparr>gauss_params := Some gp, gauss_baselines := Some bs,
                  gauss_amplitudes := Some ams, gauss_centroids := Some cs,
                  gauss_widths := Some ws\<rparr>)))))"

text \<open>\<open>CIUAnalysisObj.__init__\<close>; the last argument is \<open>gauss_params\<close>, default \<open>None\<close>.\<close>

definition CIUAnalysisObj_init ::
  "'a CIURaw \<Rightarrow> 'a matrix \<Rightarrow> 'a axes_pair \<Rightarrow> 'a list list option
     \<Rightarrow> error + 'a CIUAnalysisObj" where
  "CIUAnalysisObj_init ciu_raw_obj data ax gp_opt =
     (let self = \<lparr>raw_obj = ciu_raw_obj, ciu_data = data, axes = ax,
                  gauss_params = None, gauss_baselines = None, gauss_amplitudes = None,
                  gauss_centroids = None, gauss_widths = None, gauss_fwhms = None,
                  gauss_adj_r2s = None, gauss_fits = None, gauss_covariances = None,
                  gauss_r2s = None, gauss_resolutions = None, gauss_fit_stats = None,
                  params = None, raw_obj_list = None, filename = None\<rparr>
      in case gp_opt of None \<Rightarrow> Inr self | Some gp \<Rightarrow> init_gauss_lists self gp)"

text \<open>
  What a method leaves behind besides its return value: the lines printed and the files
  written. A PDF is its list of pages (x values, scattered column, fitted curve, title);
  a text table is its header and its rows.
\<close>

record 'a pdf_page =
  page_x :: "'a list"
  page_scatter :: "'a list"
  page_fit :: "'a list"
  page_title :: 'a

datatype 'a file_content =
    Pdf "'a pdf_page list"
  | Npy
  | Table string "'a list list"

record 'a effects =
  printed :: "string list"
  files :: "(string \<times> 'a file_content) list"

text \<open>\<open>os.path.join\<close> of two components and \<open>os.path.dirname\<close>, as in \<open>posixpath\<close>.\<close>

definition os_path_join :: "string \<Rightarrow> string \<Rightarrow> string" where
  "os_path_join a b =
     (if b \<noteq> [] \<and> hd b = CHR ''/'' then b
      else if a = [] \<or> last a = CHR ''/'' then a @ b
      else a @ ''/'' @ b)"

definition py_rstrip :: "string \<Rightarrow> string \<Rightarrow> string" where
  "py_rstrip s chars = rev (dropWhile (\<lambda>c. c \<in> set chars) (rev s))"

definition os_path_dirname :: "string \<Rightarrow> string" where
  "os_path_dirname p =
     (let head = rev (dropWhile (\<lambda>c. c \<noteq> CHR ''/'') (rev p))
      in if head \<noteq> [] \<and> head \<noteq> replicate (length head) (CHR ''/'')
         then py_rstrip head ''/'' else head)"

text \<open>\<open>np.swapaxes(m, 0, 1)\<close> of a two-dimensional array with \<open>n\<close> columns.\<close>

definition swapaxes :: "nat \<Rightarrow> 'a matrix \<Rightarrow> 'a matrix" where
  "swapaxes n m = map (\<lambda>j. map (\<lambda>row. row ! j) m) [0..<n]"

text \<open>
  One page of \<open>save_gaussfits_pdf\<close>: \<open>plt.scatter\<close> and \<open>plt.plot\<close> raise
  \<open>ValueError\<close> when their x and y values differ in number.
\<close>

definition gaussfit_page ::
  "'a CIUAnalysisObj \<Rightarrow> 'a list list \<Rightarrow> 'a matrix \<Rightarrow> nat \<Rightarrow> error + 'a pdf_page" where
  "gaussfit_page self fits intarray k =
     (case py_index intarray k of Inl e \<Rightarrow> Inl e | Inr col \<Rightarrow>
        if length col \<noteq> length (fst (axes self)) then Inl ValueError
        else
     (case py_index fits k of Inl e \<Rightarrow> Inl e | Inr fit \<Rightarrow>
        if length fit \<noteq> length (fst (axes self)) then Inl ValueError
        else
     (case py_index (snd (axes self)) k of Inl e \<Rightarrow> Inl e | Inr cv \<Rightarrow>
        Inr \<lparr>page_x = fst (axes self), page_scatter = col, page_fit = fit,
             page_title = cv\<rparr>)))"

text \<open>
  \<open>PdfPages\<close> opens its file when the first page is saved: with no CV column there is
  no page and no file.
\<close>

definition save_gaussfits_pdf :: "'a CIUAnalysisObj \<Rightarrow> string \<Rightarrow> error + 'a effects" where
  "save_gaussfits_pdf self outputpath =
     (case gauss_fits self of
        None \<Rightarrow>
          Inr \<lparr>printed = [''No gaussian fit data in this object yet, returning''], files = []\<rparr>
      | Some fits \<Rightarrow>
          (let name = ''Gausfitdata_'' @ raw_filename (raw_obj self) @ ''_.pdf'';
               intarray = swapaxes (if ciu_data self = [] then 0 else length (hd (ciu_data self)))
                            (ciu_data self)
           in (case comprehension (gaussfit_page self fits intarray)
                     [0..<length (snd (axes self))] of
                Inl e \<Rightarrow> Inl e
              | Inr pages \<Rightarrow>
                  Inr \<lparr>printed = [''Saving '' @ name @ '' .....'', ''Saving '' @ name @ '' DONE''],
                       files = (if pages = [] then []
                                else [(os_path_join outputpath name, Pdf pages)])\<rparr>)))"

text \<open>
  \<open>save_gauss_params\<close>. The list of seven columns is built and then replaced by
  \<open>np.array(outarray[0], dtype='float')\<close>, the one-dimensional array of its first
  element \<open>self.axes[0]\<close>; \<open>np.transpose\<close> of a one-dimensional array is the array itself,
  and \<open>np.savetxt\<close> writes a one-dimensional array one value per row. (The first element
  is always the axis, never \<open>None\<close>.)
\<close>

definition savetxt_rows_1d :: "'a list \<Rightarrow> 'a list list" where
  "savetxt_rows_1d xs = map (\<lambda>x. [x]) xs"

definition gauss_header :: string where
  "gauss_header = ''TrapCV, ATD_centroid, ATD_width, ATD_FWHM, ATD_Resolution, R^2, Adj_R^2''"

definition np_array_1d :: "'a list option \<Rightarrow> 'a list" where
  "np_array_1d col = (case col of Some xs \<Rightarrow> xs | None \<Rightarrow> [])"

definition save_gauss_params :: "'a CIUAnalysisObj \<Rightarrow> string \<Rightarrow> 'a effects" where
  "save_gauss_params self outputpath =
     (let outarray = [Some (fst (axes self)), gauss_centroids self, gauss_widths self,
                      gauss_fwhms self, gauss_resolutions self, gauss_r2s self,
                      gauss_adj_r2s self];
          outarray = np_array_1d (outarray ! 0);
          outarray2 = outarray;
          name = raw_filename (raw_obj self)
      in \<lparr>printed = [''Saving files ...'', name @ ''_curvefit_popt.npy'',
                      name @ ''_curvefit_pcov.npy'', name @ ''_curvefit_stats.npy''],
           files = [(os_path_join outputpath (name @ ''_curvefit_popt.npy''), Npy),
                    (os_path_join outputpath (name @ ''_curvefit_pcov.npy''), Npy),
                    (os_path_join outputpath (name @ ''_curvefit_stats.npy''), Npy),
                    (os_path_join outputpath (name @ ''_outarraygaussfit.csv''),
                       Table gauss_header (savetxt_rows_1d outarray2))]\<rparr>)"

section \<open>CIU2\_Main.py\<close>

subsection \<open>The processing pipeline\<close>

text \<open>
  The module \<open>Raw_Processing\<close> is not among the sources, so its four stages are a
  parameter of the pipeline: any functions of the shapes \<open>process_raw_obj\<close> calls them
  with, each of which may raise.
\<close>

record 'a Raw_Processing =
  normalize_by_col :: "'a matrix \<Rightarrow> error + 'a matrix"
  interpolate_cv :: "'a matrix \<Rightarrow> 'a axes_pair \<Rightarrow> int \<Rightarrow> error + ('a matrix \<times> 'a axes_pair)"
  sav_gol_smooth :: "'a matrix \<Rightarrow> int \<Rightarrow> error + 'a matrix"
  crop :: "'a matrix \<Rightarrow> 'a axes_pair \<Rightarrow> 'a list \<Rightarrow> error + ('a matrix \<times> 'a axes_pair)"

text \<open>
  A run of the pipeline is observed through the calls it makes to these stages, in
  order, next to its outcome. A call that raises is the last one of its run.
\<close>

datatype stage = Normalize | Interpolate | Smooth | Crop

type_synonym 'r traced = "stage list \<times> (error + 'r)"

definition call :: "stage \<Rightarrow> error + 'r \<Rightarrow> 'r traced" where
  "call s r = ([s], r)"

definition no_call :: "'r \<Rightarrow> 'r traced" where
  "no_call x = ([], Inr x)"

definition and_then :: "'r traced \<Rightarrow> ('r \<Rightarrow> 's traced) \<Rightarrow> 's traced" where
  "and_then m f =
     (case snd m of
        Inl e \<Rightarrow> (fst m, Inl e)
      | Inr x \<Rightarrow> (fst m @ fst (f x), snd (f x)))"

text \<open>
  The smoothing loop of \<open>process_raw_obj\<close>:
  \<^verbatim>\<open>i = 0
while i < params_obj.smoothing_iterations:
    norm_data = Raw_Processing.sav_gol_smooth(norm_data, params_obj.smoothing_window)
    i += 1\<close>
\<close>

function smooth_loop ::
  "'a Raw_Processing \<Rightarrow> int \<Rightarrow> int \<Rightarrow> int \<Rightarrow> 'a matrix \<Rightarrow> 'a matrix traced" where
  "smooth_loop rp window iterations i norm_data =
     (if i < iterations
      then (case sav_gol_smooth rp norm_data window of
              Inl e \<Rightarrow> ([Smooth], Inl e)
            | Inr norm_data' \<Rightarrow>
                (let r = smooth_loop rp window iterations (i + 1) norm_data'
                 in (Smooth # fst r, snd r)))
      else ([], Inr norm_data))"
  by pat_completeness auto
termination
  by (relation "measure (\<lambda>(rp, window, iterations, i, norm_data). nat (iterations - i))") auto

definition process_raw_obj ::
  "'a Raw_Processing \<Rightarrow> 'a CIURaw \<Rightarrow> 'a Parameters \<Rightarrow> 'a CIUAnalysisObj traced" where
  "process_raw_obj rp raw params_obj =
     and_then (call Normalize (normalize_by_col rp (rawdata raw))) (\<lambda>norm_data.
     and_then (case interpolation_bins params_obj of
                 None \<Rightarrow> no_call (norm_data, (dt_axis raw, cv_axis raw))
               | Some bins \<Rightarrow>
                   call Interpolate
                     (interpolate_cv rp norm_data (dt_axis raw, cv_axis raw) bins))
       (\<lambda>(norm_data, axes1).
     and_then (case smoothing_window params_obj of
                 None \<Rightarrow> no_call norm_data
               | Some window \<Rightarrow>
                   smooth_loop rp window (smoothing_iterations params_obj) 0 norm_data)
       (\<lambda>norm_data.
     and_then (case cropping_window_values params_obj of
                 None \<Rightarrow> no_call (norm_data, axes1)
               | Some crop_vals \<Rightarrow> call Crop (crop rp norm_data axes1 crop_vals))
       (\<lambda>(norm_data, axes2).
     ([], case CIUAnalysisObj_init raw norm_data axes2 None of
            Inl e \<Rightarrow> Inl e
          | Inr analysis_obj \<Rightarrow> Inr (analysis_obj\<lparr>params := Some params_obj\<rparr>))))))"

subsection \<open>Saving and averaging\<close>

text \<open>
  The pickle files are a store from path to the object written there.
  \<open>save_analysis_obj\<close> returns the path, and with it the object as it now is (its
  \<open>filename\<close> set) and the store.
\<close>

type_synonym 'a pickles = "string \<rightharpoonup> 'a CIUAnalysisObj"

definition file_extension :: string where
  "file_extension = ''.ciu''"

definition save_analysis_obj ::
  "'a pickles \<Rightarrow> 'a CIUAnalysisObj \<Rightarrow> string \<Rightarrow> string option
     \<Rightarrow> string \<times> 'a CIUAnalysisObj \<times> 'a pickles" where
  "save_analysis_obj fs analysis_obj filename_append outputdir =
     (let picklefile =
            (case outputdir of
               Some dir \<Rightarrow>
                 os_path_join dir
                   (py_rstrip (raw_filename (raw_obj analysis_obj)) ''_raw.csv''
                      @ filename_append @ file_extension)
             | None \<Rightarrow>
                 os_path_join (os_path_dirname (filepath (raw_obj analysis_obj)))
                   (py_rstrip (raw_filename (raw_obj analysis_obj)) ''_raw.csv''
                      @ filename_append @ file_extension));
          analysis_obj' = analysis_obj\<lparr>filename := Some picklefile\<rparr>
      in (picklefile, analysis_obj', fs(picklefile \<mapsto> analysis_obj')))"

text \<open>
  \<open>np.mean(ciu_data_list, axis=0)\<close> of a non-empty list of two-dimensional arrays:
  the list becomes one three-dimensional array, which numpy (from 1.24 on, for every
  ragged list) refuses with \<open>ValueError\<close> unless all the matrices have one shape; the
  matrices are then added entry by entry,
  first to last, and every sum is divided by the number of matrices. The addition and the
  division by a count are those of the entry type, given as \<open>add\<close> and \<open>div_count\<close>.
\<close>

definition shape :: "'a matrix \<Rightarrow> nat \<times> nat" where
  "shape m = (length m, if m = [] then 0 else length (hd m))"

definition is_array :: "'a matrix \<Rightarrow> bool" where
  "is_array m = list_all (\<lambda>row. length row = snd (shape m)) m"

definition add_arrays :: "('a \<Rightarrow> 'a \<Rightarrow> 'a) \<Rightarrow> 'a matrix \<Rightarrow> 'a matrix \<Rightarrow> 'a matrix" where
  "add_arrays add m1 m2 = map2 (map2 add) m1 m2"

definition np_mean ::
  "('a \<Rightarrow> 'a \<Rightarrow> 'a) \<Rightarrow> ('a \<Rightarrow> nat \<Rightarrow> 'a) \<Rightarrow> 'a matrix list \<Rightarrow> error + 'a matrix" where
  "np_mean add div_count ms =
     (case ms of
        [] \<Rightarrow> Inl ValueError
      | m # rest \<Rightarrow>
          if list_all is_array ms \<and> list_all (\<lambda>m'. shape m' = shape m) rest
          then Inr (map (map (\<lambda>x. div_count x (length ms))) (foldl (add_arrays add) m rest))
          else Inl ValueError)"

text \<open>
  \<open>average_ciu\<close>. Its arguments \<open>params_obj\<close> and \<open>output_dir\<close> are never read. On the
  empty list \<open>np.mean\<close> only warns, and \<open>raw_obj_list[0]\<close> raises \<open>IndexError\<close>.
  Reading \<open>analysis_obj_list[0].params\<close> raises \<open>AttributeError\<close> on an object that
  was never given the attribute.
\<close>

definition average_ciu ::
  "('a \<Rightarrow> 'a \<Rightarrow> 'a) \<Rightarrow> ('a \<Rightarrow> nat \<Rightarrow> 'a) \<Rightarrow> 'a pickles \<Rightarrow> 'a CIUAnalysisObj list
     \<Rightarrow> 'a Parameters \<Rightarrow> string \<Rightarrow> error + ('a CIUAnalysisObj \<times> 'a pickles)" where
  "average_ciu add div_count fs analysis_obj_list params_obj output_dir =
     (let raw_objs = map raw_obj analysis_obj_list;
          ciu_data_list = map ciu_data analysis_obj_list
      in (case analysis_obj_list of
            [] \<Rightarrow> Inl IndexError
          | first # _ \<Rightarrow>
             (case np_mean add div_count ciu_data_list of
                Inl e \<Rightarrow> Inl e
              | Inr avg_data \<Rightarrow>
                 (case CIUAnalysisObj_init (hd raw_objs) avg_data (axes first) None of
                    Inl e \<Rightarrow> Inl e
                  | Inr averaged_obj \<Rightarrow>
                     (case params first of
                        None \<Rightarrow> Inl AttributeError
                      | Some p \<Rightarrow>
                         (let averaged_obj = averaged_obj\<lparr>params := Some p,
                                               raw_obj_list := Some raw_objs\<rparr>;
                              (picklefile, averaged_obj, fs') =
                                 save_analysis_obj fs averaged_obj ''_Avg'' None
                          in Inr (averaged_obj\<lparr>filename := Some picklefile\<rparr>, fs')))))))"

subsection \<open>The arithmetic of the entries\<close>

text \<open>
  Exact arithmetic on the reals, and binary64 arithmetic. A binary64 number is the real
  it denotes. \<open>round64 x\<close> is the binary64 number nearest to \<open>x\<close>, ties to the even
  significand: \<open>binade x\<close> is the exponent \<open>e\<close> with \<open>2 ^ e \<le> x < 2 ^ (e + 1)\<close>, and
  \<open>x\<close> is rounded to a multiple of \<open>2 ^ (e - 52)\<close>, the spacing of the 53-bit
  significands there. Overflow and subnormal numbers are left out: the model is binary64
  for results of magnitude between \<open>2 ^ (-1022)\<close> and \<open>2 ^ 1024\<close>. An operation of
  binary64 returns the exact result rounded; \<open>np.mean\<close> adds in binary64 and divides the
  sum by the count, converted to binary64.
\<close>

definition exact_div_count :: "real \<Rightarrow> nat \<Rightarrow> real" where
  "exact_div_count x n = x / real n"

fun bit_length :: "nat \<Rightarrow> nat" where
  "bit_length n = (if n = 0 then 0 else Suc (bit_length (n div 2)))"

definition binade :: "real \<Rightarrow> int" where
  "binade x = (if 1 \<le> x then int (bit_length (nat \<lfloor>x\<rfloor>)) - 1
               else - int (bit_length (nat \<lceil>1 / x\<rceil> - 1)))"

definition round_half_even :: "real \<Rightarrow> int" where
  "round_half_even y =
     (if y - of_int \<lfloor>y\<rfloor> < 1/2 then \<lfloor>y\<rfloor>
      else if 1/2 < y - of_int \<lfloor>y\<rfloor> then \<lfloor>y\<rfloor> + 1
      else if even \<lfloor>y\<rfloor> then \<lfloor>y\<rfloor> else \<lfloor>y\<rfloor> + 1)"

definition round64 :: "real \<Rightarrow> real" where
  "round64 x =
     (if x = 0 then 0
      else sgn x * of_int (round_half_even (\<bar>x\<bar> / 2 powi (binade \<bar>x\<bar> - 52)))
             * 2 powi (binade \<bar>x\<bar> - 52))"

definition float64_add :: "real \<Rightarrow> real \<Rightarrow> real" where
  "float64_add x y = round64 (x + y)"

definition float64_div_count :: "real \<Rightarrow> nat \<Rightarrow> real" where
  "float64_div_count x n = round64 (x / round64 (real n))"

section \<open>What the specification says\<close>

text \<open>
  The definitions of this section follow the words of the specification, not the code;
  the theorems compare the two.
\<close>

text \<open>Removing an exact suffix, as the specification's design notes ask for.\<close>

definition ends_with :: "string \<Rightarrow> string \<Rightarrow> bool" where
  "ends_with s suf = (length suf \<le> length s \<and> drop (length s - length suf) s = suf)"

definition remove_suffix :: "string \<Rightarrow> string \<Rightarrow> string" where
  "remove_suffix s suf = (if ends_with s suf then take (length s - length suf) s else s)"

text \<open>
  The data flow: raw matrix, Normalizer, Interpolator (optional), Smoother (optional,
  N iterations), Cropper (optional), AnalysisObject. \<open>smooth_passes k\<close> is the
  \<open>k\<close>-fold composition of one pass, each pass taking the output of the one before.
\<close>

definition then_stage :: "error + 'r \<Rightarrow> ('r \<Rightarrow> error + 's) \<Rightarrow> error + 's" where
  "then_stage r f = (case r of Inl e \<Rightarrow> Inl e | Inr x \<Rightarrow> f x)"

fun smooth_passes :: "nat \<Rightarrow> ('m \<Rightarrow> error + 'm) \<Rightarrow> 'm \<Rightarrow> error + 'm" where
  "smooth_passes 0 f m = Inr m"
| "smooth_passes (Suc k) f m = then_stage (smooth_passes k f m) f"

definition spec_analysis_obj ::
  "'a CIURaw \<Rightarrow> 'a Parameters \<Rightarrow> 'a matrix \<times> 'a axes_pair \<Rightarrow> 'a CIUAnalysisObj" where
  "spec_analysis_obj raw p r =
     \<lparr>raw_obj = raw, ciu_data = fst r, axes = snd r,
      gauss_params = None, gauss_baselines = None, gauss_amplitudes = None,
      gauss_centroids = None, gauss_widths = None, gauss_fwhms = None,
      gauss_adj_r2s = None, gauss_fits = None, gauss_covariances = None,
      gauss_r2s = None, gauss_resolutions = None, gauss_fit_stats = None,
      params = Some p, raw_obj_list = None, filename = None\<rparr>"

definition spec_pipeline ::
  "'a Raw_Processing \<Rightarrow> 'a CIURaw \<Rightarrow> 'a Parameters \<Rightarrow> error + 'a CIUAnalysisObj" where
  "spec_pipeline rp raw p =
     then_stage
      (then_stage
        (then_stage
          (then_stage
            (then_stage (normalize_by_col rp (rawdata raw))
               (\<lambda>m. Inr (m, (dt_axis raw, cv_axis raw))))
            (\<lambda>(m, ax). case interpolation_bins p of
                          None \<Rightarrow> Inr (m, ax)
                        | Some bins \<Rightarrow> interpolate_cv rp m ax bins))
          (\<lambda>(m, ax). case smoothing_window p of
                        None \<Rightarrow> Inr (m, ax)
                      | Some window \<Rightarrow>
                          then_stage
                            (smooth_passes (nat (smoothing_iterations p))
                               (\<lambda>m'. sav_gol_smooth rp m' window) m)
                            (\<lambda>m'. Inr (m', ax))))
        (\<lambda>(m, ax). case cropping_window_values p of
                      None \<Rightarrow> Inr (m, ax)
                    | Some bounds \<Rightarrow> crop rp m ax bounds))
      (\<lambda>r. Inr (spec_analysis_obj raw p r))"

definition spec_stage_order :: "'a Parameters \<Rightarrow> stage list" where
  "spec_stage_order p =
     [Normalize]
     @ (case interpolation_bins p of None \<Rightarrow> [] | Some bins \<Rightarrow> [Interpolate])
     @ (case smoothing_window p of
          None \<Rightarrow> []
        | Some window \<Rightarrow> replicate (nat (smoothing_iterations p)) Smooth)
     @ (case cropping_window_values p of None \<Rightarrow> [] | Some bounds \<Rightarrow> [Crop])"

text \<open>
  The invalid numeric parameters the specification names: an even smoothing window, an
  interpolation bin count below 2.
\<close>

definition invalid_numeric :: "'a Parameters \<Rightarrow> bool" where
  "invalid_numeric p =
     ((case smoothing_window p of None \<Rightarrow> False | Some window \<Rightarrow> even window)
      \<or> (case interpolation_bins p of None \<Rightarrow> False | Some bins \<Rightarrow> bins < 2))"

text \<open>
  The invariant of the data model: the dimensions of the processed matrix are the lengths
  of its two axes.
\<close>

definition has_dims :: "nat \<Rightarrow> nat \<Rightarrow> 'a matrix \<Rightarrow> bool" where
  "has_dims r c m = (length m = r \<and> list_all (\<lambda>row. length row = c) m)"

definition dims_match :: "'a CIUAnalysisObj \<Rightarrow> bool" where
  "dims_match obj = has_dims (length (fst (axes obj))) (length (snd (axes obj))) (ciu_data obj)"

text \<open>
  The arithmetic mean of a non-empty list of values: their sum, first to last, divided by
  their number, in the arithmetic of the entries.
\<close>

definition arithmetic_mean :: "('a \<Rightarrow> 'a \<Rightarrow> 'a) \<Rightarrow> ('a \<Rightarrow> nat \<Rightarrow> 'a) \<Rightarrow> 'a list \<Rightarrow> 'a" where
  "arithmetic_mean add div_count xs = div_count (foldl add (hd xs) (tl xs)) (length xs)"

text \<open>
  The diagnostics table: one row per CV column, holding the collision voltage (the
  header's \<open>TrapCV\<close>) and that column's centroid, width, FWHM, resolution, R squared and
  adjusted R squared.
\<close>

definition spec_gauss_rows :: "'a CIUAnalysisObj \<Rightarrow> 'a list list" where
  "spec_gauss_rows obj =
     map (\<lambda>k. [snd (axes obj) ! k, the (gauss_centroids obj) ! k, the (gauss_widths obj) ! k,
               the (gauss_fwhms obj) ! k, the (gauss_resolutions obj) ! k,
               the (gauss_r2s obj) ! k, the (gauss_adj_r2s obj) ! k])
       [0..<length (snd (axes obj))]"

section \<open>Concrete inputs\<close>

text \<open>
  An instance of the \<open>Raw_Processing\<close> parameter, to run the pipeline on concrete inputs.
  Modelled from the spec: the module is not among the sources; its stages fail where
  sections 4.2 to 4.4 of the specification say they fail, and compute the simplest filter
  of the kind each section describes (scaling by the column maximum, linear resampling,
  a moving average, selection of the rows and columns within the bounds).
\<close>

definition scale_columns :: "real matrix \<Rightarrow> real matrix" where
  "scale_columns m =
     (let maxes = map (\<lambda>j. foldr max (map (\<lambda>row. row ! j) m) 0) [0..<snd (shape m)]
      in map (\<lambda>row. map2 (\<lambda>x mx. if mx = 0 then x else x / mx) row maxes) m)"

fun lin_interp :: "(real \<times> real) list \<Rightarrow> real \<Rightarrow> real" where
  "lin_interp ((x0, y0) # (x1, y1) # rest) x =
     (if x \<le> x1 \<or> rest = [] then y0 + (y1 - y0) * (x - x0) / (x1 - x0)
      else lin_interp ((x1, y1) # rest) x)"
| "lin_interp [(x0, y0)] x = y0"
| "lin_interp [] x = 0"

definition resample ::
  "real matrix \<Rightarrow> real axes_pair \<Rightarrow> int \<Rightarrow> error + (real matrix \<times> real axes_pair)" where
  "resample m ax bins =
     (if bins < 2 \<or> length (fst ax) < 2 then Inl ConfigurationError
      else (let lo = hd (fst ax); hi = last (fst ax);
                dt' = map (\<lambda>k. lo + (hi - lo) * real k / real (nat bins - 1)) [0..<nat bins]
            in Inr (map (\<lambda>x. map (\<lambda>j. lin_interp (zip (fst ax) (map (\<lambda>row. row ! j) m)) x)
                               [0..<length (snd ax)]) dt',
                    (dt', snd ax))))"

definition moving_average :: "real matrix \<Rightarrow> int \<Rightarrow> error + real matrix" where
  "moving_average m window =
     (if even window \<or> window < 1 \<or> int (length m) < window then Inl ConfigurationError
      else (let h = nat (window div 2)
            in Inr (map (\<lambda>i. let rows = take (min (length m - 1) (i + h) + 1 - (i - h))
                                           (drop (i - h) m)
                               in map (\<lambda>j. sum_list (map (\<lambda>row. row ! j) rows)
                                             / real (length rows))
                                    [0..<snd (shape m)])
                          [0..<length m])))"

definition select_window ::
  "real matrix \<Rightarrow> real axes_pair \<Rightarrow> real list \<Rightarrow> error + (real matrix \<times> real axes_pair)" where
  "select_window m ax vals =
     (case vals of
        [dt_low, dt_high, cv_low, cv_high] \<Rightarrow>
          (let rows = filter (\<lambda>i. dt_low \<le> fst ax ! i \<and> fst ax ! i \<le> dt_high)
                        [0..<length (fst ax)];
               cols = filter (\<lambda>j. cv_low \<le> snd ax ! j \<and> snd ax ! j \<le> cv_high)
                        [0..<length (snd ax)]
           in if dt_high < dt_low \<or> cv_high < cv_low \<or> rows = [] \<or> cols = []
              then Inl AxisMismatchError
              else Inr (map (\<lambda>i. map (\<lambda>j. m ! i ! j) cols) rows,
                        (map (\<lambda>i. fst ax ! i) rows, map (\<lambda>j. snd ax ! j) cols)))
      | _ \<Rightarrow> Inl ValueError)"

definition example_rp :: "real Raw_Processing" where
  "example_rp = \<lparr>normalize_by_col = (\<lambda>m. Inr (scale_columns m)), interpolate_cv = resample,
                  sav_gol_smooth = moving_average, crop = select_window\<rparr>"

text \<open>A raw fingerprint of three drift-time bins and two collision voltages.\<close>

definition example_raw :: "real CIURaw" where
  "example_raw = \<lparr>rawdata = [[1, 2], [2, 8], [4, 4]], dt_axis = [1, 2, 3], cv_axis = [10, 20],
                   raw_filename = ''data_raw.csv'', filepath = ''/home/u/data_raw.csv''\<rparr>"

definition example_params :: "real Parameters" where
  "example_params = \<lparr>interpolation_bins = Some 5, smoothing_window = Some 3,
       smoothing_iterations = 2, cropping_window_values = Some [1, 2, 10, 20],
       save_output_csv = False\<rparr>"

text \<open>Two configurations with an even smoothing window.\<close>

definition even_window_params :: "real Parameters" where
  "even_window_params = \<lparr>interpolation_bins = None, smoothing_window = Some 4,
       smoothing_iterations = 1, cropping_window_values = None, save_output_csv = False\<rparr>"

definition even_window_no_pass_params :: "real Parameters" where
  "even_window_no_pass_params = \<lparr>interpolation_bins = None, smoothing_window = Some 4,
       smoothing_iterations = 0, cropping_window_values = None, save_output_csv = False\<rparr>"

text \<open>
  Analysis objects over \<open>example_raw\<close>: one as the pipeline leaves it, a replicate with
  the same axes, a replicate whose CV axis has other values, one with a third CV column,
  and one holding a completed Gaussian fit.
\<close>

definition example_obj :: "real CIUAnalysisObj" where
  "example_obj = spec_analysis_obj example_raw example_params
                   ([[1, 1/4], [1/2, 1], [1, 1/2]], ([1, 2, 3], [10, 20]))"

definition replicate_obj :: "real CIUAnalysisObj" where
  "replicate_obj = spec_analysis_obj (example_raw\<lparr>raw_filename := ''rep_raw.csv''\<rparr>)
                     example_params ([[0, 3/4], [1/2, 0], [1, 1]], ([1, 2, 3], [10, 20]))"

definition shifted_obj :: "real CIUAnalysisObj" where
  "shifted_obj = spec_analysis_obj (example_raw\<lparr>raw_filename := ''shift_raw.csv''\<rparr>)
                   example_params ([[0, 3/4], [1/2, 0], [1, 1]], ([1, 2, 3], [15, 25]))"

definition wider_obj :: "real CIUAnalysisObj" where
  "wider_obj = spec_analysis_obj (example_raw\<lparr>raw_filename := ''wide_raw.csv''\<rparr>)
                 example_params
                 ([[0, 3/4, 1], [1/2, 0, 1], [1, 1, 1]], ([1, 2, 3], [10, 20, 30]))"

text \<open>
  An object whose matrix has the one entry 0.1, that is, the binary64 number nearest to
  one tenth, \<open>3602879701896397 / 2 ^ 55\<close>.
\<close>

definition tenth_obj :: "real CIUAnalysisObj" where
  "tenth_obj = spec_analysis_obj example_raw example_params
                 ([[3602879701896397 / 36028797018963968]], ([1], [10]))"

definition fitted_obj :: "real CIUAnalysisObj" where
  "fitted_obj = example_obj\<lparr>gauss_params := Some [[0, 1, 2, 1/2], [0, 1, 5/2, 1]],
       gauss_baselines := Some [0, 0], gauss_amplitudes := Some [1, 1],
       gauss_centroids := Some [2, 5/2], gauss_widths := Some [1/2, 1],
       gauss_fwhms := Some [11774/10000, 23548/10000],
       gauss_adj_r2s := Some [9/10, 8/10],
       gauss_fits := Some [[1/10, 1, 1/10], [1/2, 1, 1/2]],
       gauss_covariances := Some [], gauss_r2s := Some [95/100, 85/100],
       gauss_resolutions := Some [20000/11774, 25000/23548],
       gauss_fit_stats := Some []\<rparr>"

section \<open>Properties of the analysis object\<close>

lemma comprehension_index:
  "list_all (\<lambda>x. i < length x) gp \<Longrightarrow>
     comprehension (\<lambda>x. py_index x i) gp = Inr (map (\<lambda>x. x ! i) gp)"
  by (induction gp) (simp_all add: py_index_def)

lemma init_gauss_lists_ok:
  assumes "list_all (\<lambda>x. 4 \<le> length x) gp"
  shows "init_gauss_lists self gp =
     Inr (self\<lparr>gauss_params := Some gp, gauss_baselines := Some (map (\<lambda>x. x ! 0) gp),
               gauss_amplitudes := Some (map (\<lambda>x. x ! 1) gp),
               gauss_centroids := Some (map (\<lambda>x. x ! 2) gp),
               gauss_widths := Some (map (\<lambda>x. x ! 3) gp)\<rparr>)"
proof -
  have "list_all (\<lambda>x. 0 < length x) gp" "list_all (\<lambda>x. 1 < length x) gp"
    "list_all (\<lambda>x. 2 < length x) gp" "list_all (\<lambda>x. 3 < length x) gp"
    using assms by (auto simp: list_all_iff)
  then show ?thesis
    by (simp add: init_gauss_lists_def comprehension_index)
qed

text \<open>
  Claim C9. For every list of per-column Gaussian parameter records, each holding at
  least the four components baseline, amplitude, centroid, width in that order,
  \<open>init_gauss_lists\<close> succeeds and sets four parallel lists, each as long as the list
  of records, whose \<open>i\<close>-th elements are the components 0, 1, 2 and 3 of the \<open>i\<close>-th
  record.
\<close>

theorem init_gauss_lists_parallel:
  assumes "list_all (\<lambda>x. 4 \<le> length x) gp"
  shows "\<exists>self' bs ams cs ws.
           init_gauss_lists self gp = Inr self'
         \<and> gauss_baselines self' = Some bs \<and> gauss_amplitudes self' = Some ams
         \<and> gauss_centroids self' = Some cs \<and> gauss_widths self' = Some ws
         \<and> length bs = length gp \<and> length ams = length gp
         \<and> length cs = length gp \<and> length ws = length gp
         \<and> (\<forall>i < length gp. bs ! i = gp ! i ! 0 \<and> ams ! i = gp ! i ! 1
                \<and> cs ! i = gp ! i ! 2 \<and> ws ! i = gp ! i ! 3)"
  by (simp add: init_gauss_lists_ok [OF assms])

text \<open>
  The theorem at two records: its hypothesis holds there.
\<close>

theorem init_gauss_lists_parallel_witness:
  "list_all (\<lambda>x. 4 \<le> length x) [[0, 1, 2, 1/2], [0, 1, 5/2, 1::real]]
   \<and> (\<exists>self' bs ams cs ws.
           init_gauss_lists example_obj [[0, 1, 2, 1/2], [0, 1, 5/2, 1]] = Inr self'
         \<and> gauss_baselines self' = Some bs \<and> gauss_amplitudes self' = Some ams
         \<and> gauss_centroids self' = Some cs \<and> gauss_widths self' = Some ws
         \<and> length bs = length [[0, 1, 2, 1/2], [0, 1, 5/2, 1::real]]
         \<and> length ams = length [[0, 1, 2, 1/2], [0, 1, 5/2, 1::real]]
         \<and> length cs = length [[0, 1, 2, 1/2], [0, 1, 5/2, 1::real]]
         \<and> length ws = length [[0, 1, 2, 1/2], [0, 1, 5/2, 1::real]]
         \<and> (\<forall>i < length [[0, 1, 2, 1/2], [0, 1, 5/2, 1::real]].
                bs ! i = [[0, 1, 2, 1/2], [0, 1, 5/2, 1]] ! i ! 0
              \<and> ams ! i = [[0, 1, 2, 1/2], [0, 1, 5/2, 1]] ! i ! 1
              \<and> cs ! i = [[0, 1, 2, 1/2], [0, 1, 5/2, 1]] ! i ! 2
              \<and> ws ! i = [[0, 1, 2, 1/2], [0, 1, 5/2, 1]] ! i ! 3))"
proof -
  have h: "list_all (\<lambda>x. 4 \<le> length x) [[0, 1, 2, 1/2], [0, 1, 5/2, 1::real]]"
    by simp
  show ?thesis
    by (rule conjI [OF h init_gauss_lists_parallel [OF h]])
qed

text \<open>
  Claim C10. An object constructed without Gaussian parameters has every \<open>gauss_*\<close>
  field \<open>None\<close> (the constructor sets twelve of them, \<open>gauss_params\<close> included), and
  \<open>save_gaussfits_pdf\<close> on it returns normally and writes no file. Constructed with
  parameter records of at least four components, it holds the four parameter lists read
  from them (and still no fitted curves).
\<close>

theorem init_without_gauss_params:
  "(\<exists>self. CIUAnalysisObj_init raw data ax None = Inr self
      \<and> gauss_params self = None \<and> gauss_baselines self = None
      \<and> gauss_amplitudes self = None \<and> gauss_centroids self = None
      \<and> gauss_widths self = None \<and> gauss_fwhms self = None
      \<and> gauss_adj_r2s self = None \<and> gauss_fits self = None
      \<and> gauss_covariances self = None \<and> gauss_r2s self = None
      \<and> gauss_resolutions self = None \<and> gauss_fit_stats self = None
      \<and> (\<exists>out. save_gaussfits_pdf self outputpath = Inr out \<and> files out = []))
   \<and> (list_all (\<lambda>x. 4 \<le> length x) gp \<longrightarrow>
        (\<exists>self. CIUAnalysisObj_init raw data ax (Some gp) = Inr self
           \<and> gauss_params self = Some gp
           \<and> gauss_baselines self = Some (map (\<lambda>x. x ! 0) gp)
           \<and> gauss_amplitudes self = Some (map (\<lambda>x. x ! 1) gp)
           \<and> gauss_centroids self = Some (map (\<lambda>x. x ! 2) gp)
           \<and> gauss_widths self = Some (map (\<lambda>x. x ! 3) gp)
           \<and> gauss_fits self = None))"
  by (simp add: CIUAnalysisObj_init_def save_gaussfits_pdf_def init_gauss_lists_ok)

text \<open>
  The theorem at the example raw object, with and without two parameter records.
\<close>

theorem init_without_gauss_params_witness:
  "list_all (\<lambda>x. 4 \<le> length x) [[0, 1, 2, 1/2], [0, 1, 5/2, 1::real]]
   \<and> (\<exists>self. CIUAnalysisObj_init example_raw [[1, 2], [2, 8], [4, 4]] ([1, 2, 3], [10, 20])
               (Some [[0, 1, 2, 1/2], [0, 1, 5/2, 1]]) = Inr self
           \<and> gauss_centroids self = Some [2, 5/2] \<and> gauss_widths self = Some [1/2, 1])
   \<and> (\<exists>self. CIUAnalysisObj_init example_raw [[1, 2], [2, 8], [4, 4]] ([1, 2, 3], [10, 20]) None
                = Inr self
           \<and> gauss_fits self = None
           \<and> (\<exists>out. save_gaussfits_pdf self ''/tmp'' = Inr out \<and> files out = []))"
  using init_without_gauss_params [of example_raw "[[1, 2], [2, 8], [4, 4]]" "([1, 2, 3], [10, 20])"
          "''/tmp''" "[[0, 1, 2, 1/2], [0, 1, 5/2, 1::real]]"]
  by auto

text \<open>
  Claim C2, evaluated on an object with a completed fit over three drift-time bins and
  two collision voltages. The table \<open>save_gauss_params\<close> writes has three rows of one
  value each, the drift-time axis; the table of the specification has two rows, one per
  CV column, of seven values each.
\<close>

theorem save_gauss_params_writes_dt_axis:
  "snd (files (save_gauss_params fitted_obj ''/out'') ! 3)
      = Table gauss_header [[1], [2], [3]]
   \<and> spec_gauss_rows fitted_obj
      = [[10, 2, 1/2, 11774/10000, 20000/11774, 95/100, 9/10],
         [20, 5/2, 1, 23548/10000, 25000/23548, 85/100, 8/10]]
   \<and> length (snd (axes fitted_obj)) = 2
   \<and> length (savetxt_rows_1d (fst (axes fitted_obj))) = 3"
  by (simp add: save_gauss_params_def fitted_obj_def example_obj_def spec_analysis_obj_def
        example_raw_def savetxt_rows_1d_def np_array_1d_def spec_gauss_rows_def Let_def
        upt_rec [of 0] upt_rec [of "Suc _"] nth_Cons')

section \<open>Properties of the file name\<close>

text \<open>
  Claim C3. There is a raw file name ending in \<open>_raw.csv\<close>, here \<open>data_raw.csv\<close>, for
  which \<open>save_analysis_obj\<close> strips more than the suffix: \<open>rstrip\<close> also takes the
  final \<open>a\<close> of \<open>data\<close>, a character of the suffix, so the analysis file is
  \<open>dat.ciu\<close> where exact removal of the suffix gives \<open>data.ciu\<close>.
\<close>

theorem rstrip_removes_more_than_suffix:
  "\<exists>obj :: real CIUAnalysisObj.
      ends_with (raw_filename (raw_obj obj)) ''_raw.csv''
    \<and> py_rstrip (raw_filename (raw_obj obj)) ''_raw.csv''
         \<noteq> remove_suffix (raw_filename (raw_obj obj)) ''_raw.csv''
    \<and> length (py_rstrip (raw_filename (raw_obj obj)) ''_raw.csv'')
         < length (remove_suffix (raw_filename (raw_obj obj)) ''_raw.csv'')
    \<and> fst (save_analysis_obj Map.empty obj [] (Some ''/out'')) = ''/out/dat.ciu''
    \<and> os_path_join ''/out'' (remove_suffix (raw_filename (raw_obj obj)) ''_raw.csv'' @ file_extension)
         = ''/out/data.ciu''
    \<and> fst (save_analysis_obj Map.empty obj [] None) = ''/home/u/dat.ciu''"
  by (rule exI [of _ example_obj])
     (simp add: example_obj_def spec_analysis_obj_def example_raw_def ends_with_def
        remove_suffix_def py_rstrip_def save_analysis_obj_def os_path_join_def
        os_path_dirname_def file_extension_def Let_def)

section \<open>Properties of the pipeline\<close>

subsection \<open>The smoothing loop\<close>

declare smooth_loop.simps [simp del]

lemma smooth_passes_front:
  "smooth_passes (Suc k) f m = then_stage (f m) (smooth_passes k f)"
proof (induction k)
  case 0
  show ?case by (simp add: then_stage_def split: sum.splits)
next
  case (Suc k)
  have "smooth_passes (Suc (Suc k)) f m = then_stage (smooth_passes (Suc k) f m) f"
    by simp
  also have "\<dots> = then_stage (then_stage (f m) (smooth_passes k f)) f"
    by (simp only: Suc.IH)
  also have "\<dots> = then_stage (f m) (smooth_passes (Suc k) f)"
    by (simp add: then_stage_def split: sum.splits)
  finally show ?case .
qed

lemma smooth_loop_result:
  "snd (smooth_loop rp window iterations i m)
     = smooth_passes (nat (iterations - i)) (\<lambda>d. sav_gol_smooth rp d window) m"
proof (induction rp window iterations i m rule: smooth_loop.induct)
  case (1 rp window iterations i norm_data)
  show ?case
  proof (cases "i < iterations")
    case False
    then show ?thesis by (subst smooth_loop.simps) simp
  next
    case True
    then have n: "nat (iterations - i) = Suc (nat (iterations - (i + 1)))" by simp
    show ?thesis
    proof (cases "sav_gol_smooth rp norm_data window")
      case (Inl e)
      with True show ?thesis
        by (subst smooth_loop.simps) (simp add: n smooth_passes_front then_stage_def del: smooth_passes.simps)
    next
      case (Inr d')
      with True "1.IH" [OF True Inr] show ?thesis
        by (subst smooth_loop.simps) (simp add: n smooth_passes_front then_stage_def Let_def del: smooth_passes.simps)
    qed
  qed
qed

lemma smooth_loop_calls:
  "\<exists>n \<le> nat (iterations - i).
      fst (smooth_loop rp window iterations i m) = replicate n Smooth
    \<and> (\<not> isl (snd (smooth_loop rp window iterations i m)) \<longrightarrow> n = nat (iterations - i))"
proof (induction rp window iterations i m rule: smooth_loop.induct)
  case (1 rp window iterations i norm_data)
  show ?case
  proof (cases "i < iterations")
    case False
    then show ?thesis by (subst (1 2) smooth_loop.simps) simp
  next
    case True
    then have n: "nat (iterations - i) = Suc (nat (iterations - (i + 1)))" by simp
    show ?thesis
    proof (cases "sav_gol_smooth rp norm_data window")
      case (Inl e)
      with True have "smooth_loop rp window iterations i norm_data = ([Smooth], Inl e)"
        by (subst smooth_loop.simps) simp
      then show ?thesis
        by (intro exI [of _ "Suc 0"]) (simp add: n)
    next
      case (Inr d')
      from "1.IH" [OF True Inr] obtain k where k: "k \<le> nat (iterations - (i + 1))"
        "fst (smooth_loop rp window iterations (i + 1) d') = replicate k Smooth"
        "\<not> isl (snd (smooth_loop rp window iterations (i + 1) d')) \<longrightarrow> k = nat (iterations - (i + 1))"
        by blast
      have eq: "smooth_loop rp window iterations i norm_data
           = (Smooth # fst (smooth_loop rp window iterations (i + 1) d'),
              snd (smooth_loop rp window iterations (i + 1) d'))"
        using True Inr by (subst smooth_loop.simps) (simp add: Let_def)
      show ?thesis
        using k by (intro exI [of _ "Suc k"]) (simp add: eq n)
    qed
  qed
qed

lemma smooth_loop_pure:
  assumes "\<And>d. sav_gol_smooth rp d window = Inr (f d)"
  shows "smooth_passes k (\<lambda>d. sav_gol_smooth rp d window) m = Inr ((f ^^ k) m)"
  by (induction k) (simp_all add: assms then_stage_def)

lemma smooth_loop_error:
  "snd (smooth_loop rp window iterations i m) = Inl e
     \<Longrightarrow> i < iterations \<and> (\<exists>d. sav_gol_smooth rp d window = Inl e)"
proof (induction rp window iterations i m rule: smooth_loop.induct)
  case (1 rp window iterations i norm_data)
  show ?case
  proof (cases "i < iterations")
    case False
    with "1.prems" show ?thesis by (subst (asm) smooth_loop.simps) simp
  next
    case True
    show ?thesis
    proof (cases "sav_gol_smooth rp norm_data window")
      case (Inl e')
      with True "1.prems" have "e' = e" by (subst (asm) smooth_loop.simps) simp
      with Inl True show ?thesis by blast
    next
      case (Inr d')
      with True "1.prems" have "snd (smooth_loop rp window iterations (i + 1) d') = Inl e"
        by (subst (asm) smooth_loop.simps) (simp add: Let_def)
      with "1.IH" [OF True Inr] True show ?thesis by blast
    qed
  qed
qed

subsection \<open>The whole pipeline\<close>

lemma process_raw_obj_result:
  "snd (process_raw_obj rp raw p) = spec_pipeline rp raw p"
  by (simp add: process_raw_obj_def spec_pipeline_def and_then_def call_def no_call_def
        then_stage_def CIUAnalysisObj_init_def spec_analysis_obj_def smooth_loop_result
      split: option.splits sum.splits prod.splits)

lemma and_then_calls:
  "fst (and_then m f) = (case snd m of Inl e \<Rightarrow> fst m | Inr x \<Rightarrow> fst m @ fst (f x))"
  by (simp add: and_then_def split: sum.splits)

lemma and_then_result:
  "snd (and_then m f) = (case snd m of Inl e \<Rightarrow> Inl e | Inr x \<Rightarrow> snd (f x))"
  by (simp add: and_then_def split: sum.splits)

lemma smooth_loop_calls_prefix:
  "prefix (fst (smooth_loop rp window K 0 m)) (replicate (nat K) Smooth)"
proof -
  from smooth_loop_calls [of K 0 rp window m] obtain n where
    "n \<le> nat K" "fst (smooth_loop rp window K 0 m) = replicate n Smooth" by auto
  then show ?thesis
    by (metis le_Suc_ex prefixI replicate_add)
qed

lemma smooth_loop_calls_all:
  "snd (smooth_loop rp window K 0 m) = Inr m'
     \<Longrightarrow> fst (smooth_loop rp window K 0 m) = replicate (nat K) Smooth"
  using smooth_loop_calls [of K 0 rp window m] by auto

lemma process_raw_obj_calls_prefix:
  "prefix (fst (process_raw_obj rp raw p)) (spec_stage_order p)"
  unfolding process_raw_obj_def spec_stage_order_def
  by (auto simp: and_then_calls and_then_result call_def no_call_def CIUAnalysisObj_init_def
        smooth_loop_calls_prefix smooth_loop_calls_all
      split: option.splits sum.splits prod.splits)

lemma process_raw_obj_calls_all:
  "snd (process_raw_obj rp raw p) = Inr obj
     \<Longrightarrow> fst (process_raw_obj rp raw p) = spec_stage_order p"
  unfolding process_raw_obj_def spec_stage_order_def
  by (auto simp: and_then_calls and_then_result call_def no_call_def CIUAnalysisObj_init_def
        smooth_loop_calls_all
      split: option.splits sum.splits prod.splits)

lemma process_raw_obj_first_call:
  "\<exists>rest. fst (process_raw_obj rp raw p) = Normalize # rest"
  by (simp add: process_raw_obj_def and_then_calls call_def split: sum.splits)

subsection \<open>Runs on the concrete inputs\<close>

lemma ex_norm: "scale_columns [[1, 2], [2, 8], [4, 4]] = [[1/4, 1/4], [1/2, 1], [1, 1/2]]"
  by (simp add: scale_columns_def shape_def Let_def upt_rec [of 0] upt_rec [of "Suc _"])

lemma ex_resample: "resample [[1/4, 1/4], [1/2, 1], [1, 1/2]] ([1, 2, 3], [10, 20]) 5
   = Inr ([[1/4, 1/4], [3/8, 5/8], [1/2, 1], [3/4, 3/4], [1, 1/2]], ([1, 3/2, 2, 5/2, 3], [10, 20]))"
  by (simp add: resample_def Let_def upt_rec [of 0] upt_rec [of "Suc _"] eval_nat_numeral)

lemma ex_smooth1: "moving_average [[1/4, 1/4], [3/8, 5/8], [1/2, 1], [3/4, 3/4], [1, 1/2]] 3
   = Inr [[5/16, 7/16], [3/8, 5/8], [13/24, 19/24], [3/4, 3/4], [7/8, 5/8]]"
  by (simp add: moving_average_def shape_def Let_def upt_rec [of 0] upt_rec [of "Suc _"] eval_nat_numeral)

lemma ex_smooth2: "moving_average [[5/16, 7/16], [3/8, 5/8], [13/24, 19/24], [3/4, 3/4], [7/8, 5/8]] 3
   = Inr [[11/32, 17/32], [59/144, 89/144], [5/9, 13/18], [13/18, 13/18], [13/16, 11/16]]"
  by (simp add: moving_average_def shape_def Let_def upt_rec [of 0] upt_rec [of "Suc _"] eval_nat_numeral)

lemma ex_crop: "select_window [[11/32, 17/32], [59/144, 89/144], [5/9, 13/18], [13/18, 13/18], [13/16, 11/16]]
     ([1, 3/2, 2, 5/2, 3], [10, 20]) [1, 2, 10, 20]
   = Inr ([[11/32, 17/32], [59/144, 89/144], [5/9, 13/18]], ([1, 3/2, 2], [10, 20]))"
  by (simp add: select_window_def Let_def upt_rec [of 0] upt_rec [of "Suc _"] eval_nat_numeral)

lemma ex_loop:
  "smooth_loop example_rp 3 2 0 [[1/4, 1/4], [3/8, 5/8], [1/2, 1], [3/4, 3/4], [1, 1/2]]
    = ([Smooth, Smooth],
       Inr [[11/32, 17/32], [59/144, 89/144], [5/9, 13/18], [13/18, 13/18], [13/16, 11/16]])"
  apply (subst smooth_loop.simps)
  apply (simp add: example_rp_def ex_smooth1)
  apply (subst smooth_loop.simps)
  apply (simp add: example_rp_def ex_smooth2)
  apply (subst smooth_loop.simps)
  apply simp
  done

lemma example_run:
  "process_raw_obj example_rp example_raw example_params
     = ([Normalize, Interpolate, Smooth, Smooth, Crop],
        Inr (spec_analysis_obj example_raw example_params
               ([[11/32, 17/32], [59/144, 89/144], [5/9, 13/18]], ([1, 3/2, 2], [10, 20]))))"
proof -
  have n: "normalize_by_col example_rp (rawdata example_raw) = Inr [[1/4, 1/4], [1/2, 1], [1, 1/2]]"
    by (simp add: example_rp_def example_raw_def ex_norm)
  have i: "interpolate_cv example_rp [[1/4, 1/4], [1/2, 1], [1, 1/2]]
             (dt_axis example_raw, cv_axis example_raw) 5
       = Inr ([[1/4, 1/4], [3/8, 5/8], [1/2, 1], [3/4, 3/4], [1, 1/2]], ([1, 3/2, 2, 5/2, 3], [10, 20]))"
    by (simp add: example_rp_def example_raw_def ex_resample)
  have c: "crop example_rp [[11/32, 17/32], [59/144, 89/144], [5/9, 13/18], [13/18, 13/18], [13/16, 11/16]]
     ([1, 3/2, 2, 5/2, 3], [10, 20]) [1, 2, 10, 20]
   = Inr ([[11/32, 17/32], [59/144, 89/144], [5/9, 13/18]], ([1, 3/2, 2], [10, 20]))"
    by (simp add: example_rp_def ex_crop)
  have p: "interpolation_bins example_params = Some 5" "smoothing_window example_params = Some 3"
    "smoothing_iterations example_params = 2" "cropping_window_values example_params = Some [1, 2, 10, 20]"
    by (simp_all add: example_params_def)
  show ?thesis
    by (simp add: process_raw_obj_def and_then_def call_def no_call_def n i c p ex_loop
          CIUAnalysisObj_init_def spec_analysis_obj_def)
qed

lemma normalized_example:
  "normalize_by_col example_rp (rawdata example_raw) = Inr [[1/4, 1/4], [1/2, 1], [1, 1/2]]"
  by (simp add: example_rp_def example_raw_def ex_norm)

lemma even_window_run:
  "process_raw_obj example_rp example_raw even_window_params
     = ([Normalize, Smooth], Inl ConfigurationError)"
proof -
  have l: "smooth_loop example_rp 4 1 0 [[1/4, 1/4], [1/2, 1], [1, 1/2]] = ([Smooth], Inl ConfigurationError)"
    by (subst smooth_loop.simps) (simp add: example_rp_def moving_average_def)
  show ?thesis
    by (simp add: process_raw_obj_def and_then_def call_def no_call_def normalized_example l
          even_window_params_def)
qed

lemma even_window_no_pass_run:
  "process_raw_obj example_rp example_raw even_window_no_pass_params
     = ([Normalize],
        Inr (spec_analysis_obj example_raw even_window_no_pass_params
               ([[1/4, 1/4], [1/2, 1], [1, 1/2]], ([1, 2, 3], [10, 20]))))"
proof -
  have l: "smooth_loop example_rp 4 0 0 [[1/4, 1/4], [1/2, 1], [1, 1/2]]
             = ([], Inr [[1/4, 1/4], [1/2, 1], [1, 1/2]])"
    by (subst smooth_loop.simps) simp
  have a: "(dt_axis example_raw, cv_axis example_raw) = ([1, 2, 3], [10, 20])"
    by (simp add: example_raw_def)
  show ?thesis
    by (simp add: process_raw_obj_def and_then_def call_def no_call_def normalized_example l a
          even_window_no_pass_params_def CIUAnalysisObj_init_def spec_analysis_obj_def)
qed

subsection \<open>The claims\<close>

text \<open>
  Claim C8. For every matrix, window and iteration count \<open>K\<close>, the smoothing loop
  returns what \<open>K\<close> passes of the smoother return, each pass applied to the output of
  the pass before; when it returns a matrix it has called the smoother exactly \<open>K\<close>
  times; and for a smoother that never raises the result is the \<open>K\<close>-fold composition
  of the single pass. (For \<open>K \<ge> 1\<close>, \<open>nat K\<close> is \<open>K\<close>.)
\<close>

theorem smoothing_is_K_fold_composition:
  "snd (smooth_loop rp window K 0 m)
      = smooth_passes (nat K) (\<lambda>d. sav_gol_smooth rp d window) m
   \<and> (\<forall>m'. snd (smooth_loop rp window K 0 m) = Inr m'
          \<longrightarrow> fst (smooth_loop rp window K 0 m) = replicate (nat K) Smooth)
   \<and> ((\<forall>d. sav_gol_smooth rp d window = Inr (f d))
          \<longrightarrow> smooth_loop rp window K 0 m = (replicate (nat K) Smooth, Inr ((f ^^ nat K) m)))"
proof (intro conjI allI impI)
  show r: "snd (smooth_loop rp window K 0 m)
      = smooth_passes (nat K) (\<lambda>d. sav_gol_smooth rp d window) m"
    using smooth_loop_result [of rp window K 0 m] by simp
  show c: "fst (smooth_loop rp window K 0 m) = replicate (nat K) Smooth"
    if "snd (smooth_loop rp window K 0 m) = Inr m'" for m'
    using smooth_loop_calls [of K 0 rp window m] that by auto
  show "smooth_loop rp window K 0 m = (replicate (nat K) Smooth, Inr ((f ^^ nat K) m))"
    if p: "\<forall>d. sav_gol_smooth rp d window = Inr (f d)"
  proof -
    have s: "snd (smooth_loop rp window K 0 m) = Inr ((f ^^ nat K) m)"
      using r smooth_loop_pure [of rp window f "nat K" m] p by simp
    with c [OF s] show ?thesis by (simp add: prod_eq_iff)
  qed
qed

text \<open>
  The theorem at two passes of window 3 over a matrix of five rows, and at two passes of
  a smoother that never raises.
\<close>

theorem smoothing_is_K_fold_composition_witness:
  "snd (smooth_loop example_rp 3 2 0 [[1/4, 1/4], [3/8, 5/8], [1/2, 1], [3/4, 3/4], [1, 1/2]])
      = Inr [[11/32, 17/32], [59/144, 89/144], [5/9, 13/18], [13/18, 13/18], [13/16, 11/16]]
   \<and> fst (smooth_loop example_rp 3 2 0 [[1/4, 1/4], [3/8, 5/8], [1/2, 1], [3/4, 3/4], [1, 1/2]])
      = replicate (nat 2) Smooth
   \<and> smooth_passes (nat 2) (\<lambda>d. sav_gol_smooth example_rp d 3)
        [[1/4, 1/4], [3/8, 5/8], [1/2, 1], [3/4, 3/4], [1, 1/2]]
      = Inr [[11/32, 17/32], [59/144, 89/144], [5/9, 13/18], [13/18, 13/18], [13/16, 11/16]]
   \<and> (\<forall>d. sav_gol_smooth (example_rp\<lparr>sav_gol_smooth := \<lambda>m w. Inr (scale_columns m)\<rparr>) d 3
            = Inr (scale_columns d))
   \<and> smooth_loop (example_rp\<lparr>sav_gol_smooth := \<lambda>m w. Inr (scale_columns m)\<rparr>) 3 2 0 [[1, 2], [2, 8], [4, 4]]
      = (replicate (nat 2) Smooth, Inr ((scale_columns ^^ nat 2) [[1, 2], [2, 8], [4, 4]]))"
proof -
  let ?m = "[[1/4, 1/4], [3/8, 5/8], [1/2, 1], [3/4, 3/4], [1, 1/2::real]]"
  let ?rp = "example_rp\<lparr>sav_gol_smooth := \<lambda>m w. Inr (scale_columns m)\<rparr>"
  have ok: "snd (smooth_loop example_rp 3 2 0 ?m)
      = Inr [[11/32, 17/32], [59/144, 89/144], [5/9, 13/18], [13/18, 13/18], [13/16, 11/16]]"
    by (simp add: ex_loop)
  have pure: "\<forall>d. sav_gol_smooth ?rp d 3 = Inr (scale_columns d)"
    by simp
  note a = smoothing_is_K_fold_composition [of example_rp 3 2 ?m scale_columns]
  note b = smoothing_is_K_fold_composition [of ?rp 3 2 "[[1, 2], [2, 8], [4, 4]]" scale_columns]
  from a ok have "fst (smooth_loop example_rp 3 2 0 ?m) = replicate (nat 2) Smooth"
    and "smooth_passes (nat 2) (\<lambda>d. sav_gol_smooth example_rp d 3) ?m
      = Inr [[11/32, 17/32], [59/144, 89/144], [5/9, 13/18], [13/18, 13/18], [13/16, 11/16]]"
    by simp_all
  moreover from b pure have "smooth_loop ?rp 3 2 0 [[1, 2], [2, 8], [4, 4]]
      = (replicate (nat 2) Smooth, Inr ((scale_columns ^^ nat 2) [[1, 2], [2, 8], [4, 4]]))"
    by blast
  ultimately show ?thesis using ok pure by blast
qed

text \<open>
  Claim C5. For every raw matrix and configuration, the outcome of \<open>process_raw_obj\<close>
  is the outcome of the specification's data flow: normalisation, then interpolation if
  \<open>interpolation_bins\<close> is present, then the smoothing passes if \<open>smoothing_window\<close>
  is present, then cropping if \<open>cropping_window_values\<close> is present, the result attached
  to a new analysis object. The stages are called in that order, normalisation always
  first; a run that returns an object has called exactly the stages of the configuration:
  interpolation if and only if its parameter is present, cropping likewise, and (the
  iteration count being at least 1, as the configuration requires) smoothing if and only
  if the window is present.
\<close>

theorem process_raw_obj_stage_order:
  "snd (process_raw_obj rp raw p) = spec_pipeline rp raw p
   \<and> prefix (fst (process_raw_obj rp raw p)) (spec_stage_order p)
   \<and> hd (fst (process_raw_obj rp raw p)) = Normalize
   \<and> (\<forall>obj. snd (process_raw_obj rp raw p) = Inr obj \<longrightarrow>
         fst (process_raw_obj rp raw p) = spec_stage_order p
       \<and> (Interpolate \<in> set (fst (process_raw_obj rp raw p)) \<longleftrightarrow> interpolation_bins p \<noteq> None)
       \<and> (1 \<le> smoothing_iterations p \<longrightarrow>
            (Smooth \<in> set (fst (process_raw_obj rp raw p)) \<longleftrightarrow> smoothing_window p \<noteq> None))
       \<and> (Crop \<in> set (fst (process_raw_obj rp raw p)) \<longleftrightarrow> cropping_window_values p \<noteq> None))"
proof (intro conjI allI impI)
  show "snd (process_raw_obj rp raw p) = spec_pipeline rp raw p"
    by (rule process_raw_obj_result)
  show "prefix (fst (process_raw_obj rp raw p)) (spec_stage_order p)"
    by (rule process_raw_obj_calls_prefix)
  show "hd (fst (process_raw_obj rp raw p)) = Normalize"
    using process_raw_obj_first_call [of rp raw p] by auto
next
  fix obj assume ok: "snd (process_raw_obj rp raw p) = Inr obj"
  then show all: "fst (process_raw_obj rp raw p) = spec_stage_order p"
    by (rule process_raw_obj_calls_all)
  show "(Interpolate \<in> set (fst (process_raw_obj rp raw p))) = (interpolation_bins p \<noteq> None)"
    by (cases "interpolation_bins p"; cases "smoothing_window p"; cases "cropping_window_values p")
       (simp_all add: all spec_stage_order_def)
  show "(Crop \<in> set (fst (process_raw_obj rp raw p))) = (cropping_window_values p \<noteq> None)"
    by (cases "interpolation_bins p"; cases "smoothing_window p"; cases "cropping_window_values p")
       (simp_all add: all spec_stage_order_def)
  show "(Smooth \<in> set (fst (process_raw_obj rp raw p))) = (smoothing_window p \<noteq> None)"
    if "1 \<le> smoothing_iterations p"
    using that
    by (cases "interpolation_bins p"; cases "smoothing_window p"; cases "cropping_window_values p")
       (simp_all add: all spec_stage_order_def)
qed

text \<open>
  The theorem at a configuration with all three optional stages and two smoothing passes.
\<close>

theorem process_raw_obj_stage_order_witness:
  "snd (process_raw_obj example_rp example_raw example_params)
      = Inr (spec_analysis_obj example_raw example_params
               ([[11/32, 17/32], [59/144, 89/144], [5/9, 13/18]], ([1, 3/2, 2], [10, 20])))
   \<and> 1 \<le> smoothing_iterations example_params
   \<and> fst (process_raw_obj example_rp example_raw example_params) = spec_stage_order example_params
   \<and> spec_stage_order example_params = [Normalize, Interpolate, Smooth, Smooth, Crop]
   \<and> Smooth \<in> set (fst (process_raw_obj example_rp example_raw example_params))
   \<and> smoothing_window example_params \<noteq> None"
proof -
  have ok: "snd (process_raw_obj example_rp example_raw example_params)
      = Inr (spec_analysis_obj example_raw example_params
               ([[11/32, 17/32], [59/144, 89/144], [5/9, 13/18]], ([1, 3/2, 2], [10, 20])))"
    by (simp add: example_run)
  have it: "1 \<le> smoothing_iterations example_params"
    by (simp add: example_params_def)
  have o: "spec_stage_order example_params = [Normalize, Interpolate, Smooth, Smooth, Crop]"
    by (simp add: spec_stage_order_def example_params_def eval_nat_numeral)
  from process_raw_obj_stage_order [of example_rp example_raw example_params] ok it
  have "fst (process_raw_obj example_rp example_raw example_params) = spec_stage_order example_params"
    and "Smooth \<in> set (fst (process_raw_obj example_rp example_raw example_params))
           \<longleftrightarrow> smoothing_window example_params \<noteq> None"
    by blast+
  moreover have "smoothing_window example_params \<noteq> None" by (simp add: example_params_def)
  ultimately show ?thesis using ok it o by simp
qed

text \<open>
  Claim C4 as stated fails: with an even smoothing window and one iteration the error
  comes from the smoother, after the normalisation has run; with an even smoothing window
  and no iteration there is no error at all, and an analysis object is returned.
\<close>

theorem eager_validation_counterexample:
  "invalid_numeric even_window_params
   \<and> process_raw_obj example_rp example_raw even_window_params
        = ([Normalize, Smooth], Inl ConfigurationError)
   \<and> invalid_numeric even_window_no_pass_params
   \<and> process_raw_obj example_rp example_raw even_window_no_pass_params
        = ([Normalize],
           Inr (spec_analysis_obj example_raw even_window_no_pass_params
                  ([[1/4, 1/4], [1/2, 1], [1, 1/2]], ([1, 2, 3], [10, 20]))))"
proof -
  have "invalid_numeric even_window_params"
    by (simp add: invalid_numeric_def even_window_params_def)
  moreover have "invalid_numeric even_window_no_pass_params"
    by (simp add: invalid_numeric_def even_window_no_pass_params_def)
  ultimately show ?thesis
    by (simp add: even_window_run even_window_no_pass_run)
qed

text \<open>
  Claim C4, amended. \<open>process_raw_obj\<close> validates nothing itself: whatever the
  configuration, its first call is the normalisation; an error it ends with is one a
  stage raised, for the normalisation or for a stage the configuration asks for (the
  smoother only if at least one iteration runs); and when it returns an object, every
  stage of the configuration has been called.
\<close>

theorem process_raw_obj_no_eager_validation:
  "(\<exists>rest. fst (process_raw_obj rp raw p) = Normalize # rest)
   \<and> (case snd (process_raw_obj rp raw p) of
        Inl e \<Rightarrow>
          normalize_by_col rp (rawdata raw) = Inl e
          \<or> (\<exists>d ax bins. interpolation_bins p = Some bins \<and> interpolate_cv rp d ax bins = Inl e)
          \<or> (\<exists>d window. smoothing_window p = Some window \<and> 0 < smoothing_iterations p
                 \<and> sav_gol_smooth rp d window = Inl e)
          \<or> (\<exists>d ax bounds. cropping_window_values p = Some bounds \<and> crop rp d ax bounds = Inl e)
      | Inr obj \<Rightarrow> fst (process_raw_obj rp raw p) = spec_stage_order p)"
proof (rule conjI)
  show "\<exists>rest. fst (process_raw_obj rp raw p) = Normalize # rest"
    by (rule process_raw_obj_first_call)
  show "case snd (process_raw_obj rp raw p) of
        Inl e \<Rightarrow>
          normalize_by_col rp (rawdata raw) = Inl e
          \<or> (\<exists>d ax bins. interpolation_bins p = Some bins \<and> interpolate_cv rp d ax bins = Inl e)
          \<or> (\<exists>d window. smoothing_window p = Some window \<and> 0 < smoothing_iterations p
                 \<and> sav_gol_smooth rp d window = Inl e)
          \<or> (\<exists>d ax bounds. cropping_window_values p = Some bounds \<and> crop rp d ax bounds = Inl e)
      | Inr obj \<Rightarrow> fst (process_raw_obj rp raw p) = spec_stage_order p"
  proof (cases "snd (process_raw_obj rp raw p)")
    case (Inr obj)
    then show ?thesis by (simp add: process_raw_obj_calls_all)
  next
    case (Inl e)
    then have "spec_pipeline rp raw p = Inl e" by (simp add: process_raw_obj_result)
    then have "normalize_by_col rp (rawdata raw) = Inl e
          \<or> (\<exists>d ax bins. interpolation_bins p = Some bins \<and> interpolate_cv rp d ax bins = Inl e)
          \<or> (\<exists>d window. smoothing_window p = Some window \<and> 0 < smoothing_iterations p
                 \<and> sav_gol_smooth rp d window = Inl e)
          \<or> (\<exists>d ax bounds. cropping_window_values p = Some bounds \<and> crop rp d ax bounds = Inl e)"
      using smooth_loop_error [of rp _ "smoothing_iterations p" 0 _ e]
      by (auto simp: spec_pipeline_def then_stage_def smooth_loop_result [of rp _ "smoothing_iterations p" 0, simplified, symmetric]
            split: sum.splits option.splits prod.splits)
    with Inl show ?thesis by simp
  qed
qed

text \<open>
  The theorem at the configuration with an even window and one iteration: the error is
  the smoother's.
\<close>

theorem process_raw_obj_no_eager_validation_witness:
  "invalid_numeric even_window_params
   \<and> (\<exists>rest. fst (process_raw_obj example_rp example_raw even_window_params) = Normalize # rest)
   \<and> snd (process_raw_obj example_rp example_raw even_window_params) = Inl ConfigurationError
   \<and> (\<exists>d window. smoothing_window even_window_params = Some window
          \<and> 0 < smoothing_iterations even_window_params
          \<and> sav_gol_smooth example_rp d window = Inl ConfigurationError)"
proof -
  have i: "invalid_numeric even_window_params"
    by (simp add: invalid_numeric_def even_window_params_def)
  have s: "snd (process_raw_obj example_rp example_raw even_window_params) = Inl ConfigurationError"
    by (simp add: even_window_run)
  have n: "normalize_by_col example_rp (rawdata example_raw) \<noteq> Inl ConfigurationError"
    by (simp add: normalized_example)
  have p: "interpolation_bins even_window_params = None"
    "cropping_window_values even_window_params = None"
    by (simp_all add: even_window_params_def)
  from process_raw_obj_no_eager_validation [of example_rp example_raw even_window_params]
  show ?thesis using i s n p by simp
qed

section \<open>Properties of averaging\<close>

lemma has_dims_add_arrays:
  assumes "has_dims r c m1" "has_dims r c m2"
  shows "has_dims r c (add_arrays add m1 m2)"
    and "i < r \<Longrightarrow> j < c \<Longrightarrow> add_arrays add m1 m2 ! i ! j = add (m1 ! i ! j) (m2 ! i ! j)"
proof -
  from assms have l: "length m1 = r" "length m2 = r"
    and r1: "\<And>k. k < r \<Longrightarrow> length (m1 ! k) = c"
    and r2: "\<And>k. k < r \<Longrightarrow> length (m2 ! k) = c"
    by (auto simp: has_dims_def list_all_length)
  show "has_dims r c (add_arrays add m1 m2)"
    using l r1 r2 by (simp add: has_dims_def add_arrays_def list_all_length)
  show "add_arrays add m1 m2 ! i ! j = add (m1 ! i ! j) (m2 ! i ! j)" if "i < r" "j < c"
    using that l r1 r2 by (simp add: add_arrays_def)
qed

lemma has_dims_foldl:
  assumes "has_dims r c m" "list_all (has_dims r c) rest"
  shows "has_dims r c (foldl (add_arrays add) m rest)
     \<and> (i < r \<longrightarrow> j < c \<longrightarrow>
           foldl (add_arrays add) m rest ! i ! j
             = foldl add (m ! i ! j) (map (\<lambda>m'. m' ! i ! j) rest))"
  using assms
proof (induction rest arbitrary: m)
  case Nil
  then show ?case by simp
next
  case (Cons m' rest)
  from Cons.prems have d: "has_dims r c m'" and ds: "list_all (has_dims r c) rest" by simp_all
  from Cons.IH [OF has_dims_add_arrays(1) [OF Cons.prems(1) d] ds]
    has_dims_add_arrays(2) [OF Cons.prems(1) d, of i j add]
  show ?case by simp
qed

lemma has_dims_is_array: "has_dims r c m \<Longrightarrow> is_array m"
  by (cases m) (auto simp: has_dims_def is_array_def shape_def list_all_iff)

lemma has_dims_shape: "has_dims r c m \<Longrightarrow> shape m = (r, if r = 0 then 0 else c)"
  by (cases m) (auto simp: has_dims_def shape_def)

lemma np_mean_has_dims:
  assumes "has_dims r c m" "list_all (has_dims r c) rest"
  shows "np_mean add dc (m # rest)
     = Inr (map (map (\<lambda>x. dc x (Suc (length rest)))) (foldl (add_arrays add) m rest))"
proof -
  have "list_all is_array (m # rest)"
    using assms by (auto simp: list_all_iff has_dims_is_array)
  moreover have "list_all (\<lambda>m'. shape m' = shape m) rest"
    using assms by (auto simp: list_all_iff has_dims_shape)
  ultimately show ?thesis by (simp add: np_mean_def)
qed



lemma average_ciu_ok:
  assumes "np_mean add dc (map ciu_data (first # rest)) = Inr avg_data" "params first = Some p'"
  shows "\<exists>avg fs'. average_ciu add dc fs (first # rest) p out = Inr (avg, fs')
      \<and> ciu_data avg = avg_data \<and> axes avg = axes first
      \<and> raw_obj_list avg = Some (map raw_obj (first # rest))
      \<and> raw_obj avg = raw_obj first \<and> params avg = Some p'"
  using assms
  by (simp add: average_ciu_def CIUAnalysisObj_init_def save_analysis_obj_def Let_def
        split: prod.splits)

lemma same_axes_same_dims:
  assumes "list_all (\<lambda>obj. axes obj = axes first) objs" "list_all dims_match objs"
  shows "list_all (has_dims (length (fst (axes first))) (length (snd (axes first))))
           (map ciu_data objs)"
  using assms by (induction objs) (simp_all add: dims_match_def)

lemmas obj_defs = example_obj_def replicate_obj_def shifted_obj_def wider_obj_def
  spec_analysis_obj_def example_raw_def



text \<open>
  Claim C7. For every list of at least two analysis objects with identical axes (each
  matrix having the dimensions of its axes, the first object carrying its parameters, as
  every object of the pipeline does), \<open>average_ciu\<close> returns an object whose matrix
  is, entry by entry, the arithmetic mean of the inputs' entries, whose axes are the first
  input's, and whose list of raw sources is the inputs' raw objects in input order.
\<close>

theorem average_ciu_mean_of_replicates:
  assumes "2 \<le> length objs"
    and "list_all (\<lambda>obj. axes obj = axes (hd objs)) objs"
    and "list_all dims_match objs"
    and "params (hd objs) \<noteq> None"
  shows "\<exists>avg fs'.
           average_ciu add div_count fs objs params_obj output_dir = Inr (avg, fs')
         \<and> axes avg = axes (hd objs)
         \<and> raw_obj_list avg = Some (map raw_obj objs)
         \<and> dims_match avg
         \<and> (\<forall>i < length (fst (axes (hd objs))). \<forall>j < length (snd (axes (hd objs))).
               ciu_data avg ! i ! j
                 = arithmetic_mean add div_count (map (\<lambda>obj. ciu_data obj ! i ! j) objs))"
proof -
  from assms(1) obtain first rest where objs: "objs = first # rest"
    by (cases objs) auto
  let ?r = "length (fst (axes first))" and ?c = "length (snd (axes first))"
  from assms(4) objs obtain p' where p': "params first = Some p'" by auto
  from same_axes_same_dims [of first objs] assms(2,3) objs
  have d: "has_dims ?r ?c (ciu_data first)" "list_all (has_dims ?r ?c) (map ciu_data rest)"
    by simp_all
  let ?sum = "foldl (add_arrays add) (ciu_data first) (map ciu_data rest)"
  let ?avg = "map (map (\<lambda>x. div_count x (Suc (length rest)))) ?sum"
  have m: "np_mean add div_count (map ciu_data (first # rest)) = Inr ?avg"
    using np_mean_has_dims [OF d] by simp
  from average_ciu_ok [OF m p', of fs params_obj output_dir]
  obtain avg fs' where avg: "average_ciu add div_count fs (first # rest) params_obj output_dir = Inr (avg, fs')"
    "ciu_data avg = ?avg" "axes avg = axes first"
    "raw_obj_list avg = Some (map raw_obj (first # rest))"
    by blast
  have s: "has_dims ?r ?c ?sum"
    and e: "\<And>i j. i < ?r \<Longrightarrow> j < ?c \<Longrightarrow>
          ?sum ! i ! j = foldl add (ciu_data first ! i ! j) (map (\<lambda>m'. m' ! i ! j) (map ciu_data rest))"
    using has_dims_foldl [OF d, of add] by blast+
  have dm: "dims_match avg"
    using s by (simp add: dims_match_def avg has_dims_def list_all_length)
  have en: "ciu_data avg ! i ! j
      = arithmetic_mean add div_count (map (\<lambda>obj. ciu_data obj ! i ! j) objs)"
    if "i < ?r" "j < ?c" for i j
  proof -
    from s that have "i < length ?sum" "j < length (?sum ! i)"
      by (simp_all add: has_dims_def list_all_length)
    then have "ciu_data avg ! i ! j = div_count (?sum ! i ! j) (Suc (length rest))"
      by (simp add: avg)
    then show ?thesis
      by (simp add: e [OF that] arithmetic_mean_def objs comp_def)
  qed
  show ?thesis
    using avg dm en by (intro exI [of _ avg] exI [of _ fs']) (simp add: objs)
qed

text \<open>
  The theorem at two replicates over the example raw object, in real arithmetic.
\<close>

theorem average_ciu_mean_of_replicates_witness:
  "2 \<le> length [example_obj, replicate_obj]
   \<and> list_all (\<lambda>obj. axes obj = axes (hd [example_obj, replicate_obj])) [example_obj, replicate_obj]
   \<and> list_all dims_match [example_obj, replicate_obj]
   \<and> params (hd [example_obj, replicate_obj]) \<noteq> None
   \<and> (\<exists>avg fs'.
           average_ciu (+) (\<lambda>x n. x / real n) Map.empty [example_obj, replicate_obj]
             example_params ''/out'' = Inr (avg, fs')
         \<and> axes avg = axes (hd [example_obj, replicate_obj])
         \<and> raw_obj_list avg = Some (map raw_obj [example_obj, replicate_obj])
         \<and> dims_match avg
         \<and> (\<forall>i < length (fst (axes (hd [example_obj, replicate_obj]))).
             \<forall>j < length (snd (axes (hd [example_obj, replicate_obj]))).
               ciu_data avg ! i ! j
                 = arithmetic_mean (+) (\<lambda>x n. x / real n)
                     (map (\<lambda>obj. ciu_data obj ! i ! j) [example_obj, replicate_obj])))
   \<and> arithmetic_mean (+) (\<lambda>x n. x / real n)
        (map (\<lambda>obj. ciu_data obj ! 0 ! 1) [example_obj, replicate_obj]) = 1/2"
proof -
  have h1: "2 \<le> length [example_obj, replicate_obj]" by simp
  have h2: "list_all (\<lambda>obj. axes obj = axes (hd [example_obj, replicate_obj]))
              [example_obj, replicate_obj]"
    by (simp add: obj_defs)
  have h3: "list_all dims_match [example_obj, replicate_obj]"
    by (simp add: obj_defs dims_match_def has_dims_def)
  have h4: "params (hd [example_obj, replicate_obj]) \<noteq> None"
    by (simp add: obj_defs)
  have v: "arithmetic_mean (+) (\<lambda>x n. x / real n)
        (map (\<lambda>obj. ciu_data obj ! 0 ! 1) [example_obj, replicate_obj]) = 1/2"
    by (simp add: obj_defs arithmetic_mean_def)
  from average_ciu_mean_of_replicates [OF h1 h2 h3 h4] h1 h2 h3 h4 v
  show ?thesis by blast
qed

declare bit_length.simps [simp del]

lemma add_arrays_same:
  "add_arrays add (map (map f) M) M = map (map (\<lambda>x. add (f x) x)) M"
proof -
  have row: "map2 add (map f row) row = map (\<lambda>x. add (f x) x) row" for row
    by (induction row) simp_all
  show ?thesis
    unfolding add_arrays_def by (induction M) (simp_all add: row)
qed

lemma foldl_add_arrays_copies:
  "foldl (add_arrays add) (map (map f) M) (replicate n M)
     = map (map (\<lambda>x. foldl add (f x) (replicate n x))) M"
proof (induction n arbitrary: f)
  case 0
  show ?case by simp
next
  case (Suc n)
  have "foldl (add_arrays add) (map (map f) M) (replicate (Suc n) M)
      = foldl (add_arrays add) (map (map (\<lambda>x. add (f x) x)) M) (replicate n M)"
    by (simp add: add_arrays_same)
  also have "\<dots> = map (map (\<lambda>x. foldl add (add (f x) x) (replicate n x))) M"
    by (rule Suc.IH)
  finally show ?case by simp
qed

lemma arithmetic_mean_copies:
  "arithmetic_mean add dc (replicate (Suc n) x) = dc (foldl add x (replicate n x)) (Suc n)"
  by (simp add: arithmetic_mean_def)

lemma np_mean_copies:
  assumes "is_array M"
  shows "np_mean add dc (replicate (Suc n) M)
     = Inr (map (map (\<lambda>x. arithmetic_mean add dc (replicate (Suc n) x))) M)"
proof -
  have "foldl (add_arrays add) (map (map (\<lambda>x. x)) M) (replicate n M)
     = map (map (\<lambda>x. foldl add x (replicate n x))) M"
    by (rule foldl_add_arrays_copies)
  then have f: "foldl (add_arrays add) M (replicate n M)
     = map (map (\<lambda>x. foldl add x (replicate n x))) M"
    by simp
  have "np_mean add dc (M # replicate n M)
     = Inr (map (map (\<lambda>x. dc x (Suc n))) (foldl (add_arrays add) M (replicate n M)))"
    using assms by (simp add: np_mean_def list_all_iff)
  also have "\<dots> = Inr (map (map (\<lambda>x. dc (foldl add x (replicate n x)) (Suc n))) M)"
    by (simp add: f comp_def)
  finally show ?thesis
    by (simp add: arithmetic_mean_def)
qed

lemma exact_mean_copies:
  "arithmetic_mean (+) exact_div_count (replicate (Suc n) x) = x"
proof -
  have "foldl (+) y (replicate n x) = y + real n * x" for y
    by (induction n arbitrary: y) (simp_all add: algebra_simps)
  then have "arithmetic_mean (+) exact_div_count (replicate (Suc n) x)
      = (x + real n * x) / real (Suc n)"
    by (simp add: arithmetic_mean_def exact_div_count_def)
  also have "\<dots> = x"
    by (simp add: field_simps)
  finally show ?thesis .
qed

lemma same_matrix_copies:
  "list_all (\<lambda>obj. ciu_data obj = M) objs \<Longrightarrow> map ciu_data objs = replicate (length objs) M"
  by (induction objs) simp_all

lemma average_ciu_copies:
  assumes "objs \<noteq> []" "list_all (\<lambda>obj. ciu_data obj = M) objs" "is_array M"
    "params (hd objs) \<noteq> None"
  shows "\<exists>avg fs'. average_ciu add dc fs objs p out = Inr (avg, fs')
      \<and> ciu_data avg = map (map (\<lambda>x. arithmetic_mean add dc (replicate (length objs) x))) M"
proof -
  from assms(1) obtain first rest where objs: "objs = first # rest" by (cases objs) auto
  from assms(4) objs obtain p' where p': "params first = Some p'" by auto
  have "np_mean add dc (map ciu_data (first # rest))
      = Inr (map (map (\<lambda>x. arithmetic_mean add dc (replicate (length objs) x))) M)"
    using np_mean_copies [OF assms(3), of add dc "length rest"]
      same_matrix_copies [OF assms(2)] objs by simp
  from average_ciu_ok [OF this p', of fs p out] objs show ?thesis by auto
qed

lemma tenth_is_double: "round64 (1/10) = 3602879701896397 / 36028797018963968"
  by code_simp

lemma tenth_sum:
  "float64_add (float64_add (3602879701896397 / 36028797018963968)
       (3602879701896397 / 36028797018963968)) (3602879701896397 / 36028797018963968)
     = 5404319552844596 / 18014398509481984"
  by code_simp

lemma tenth_thrice:
  "arithmetic_mean float64_add float64_div_count
     [3602879701896397 / 36028797018963968, 3602879701896397 / 36028797018963968,
      3602879701896397 / 36028797018963968]
     = 7205759403792795 / 72057594037927936"
  by code_simp

lemma dyadic_thrice:
  "arithmetic_mean float64_add float64_div_count [1, 1, 1] = 1"
  "arithmetic_mean float64_add float64_div_count [1/2, 1/2, 1/2] = 1/2"
  "arithmetic_mean float64_add float64_div_count [1/4, 1/4, 1/4] = 1/4"
  by code_simp+

text \<open>
  Claim C6 as stated fails in the arithmetic numpy uses. For the matrix whose one entry
  is 0.1, the mean of three copies has the entry \<open>7205759403792795 / 2 ^ 56\<close>
  (0.10000000000000002), not \<open>3602879701896397 / 2 ^ 55\<close> (0.1): the sum of the three
  is rounded up to \<open>5404319552844596 / 2 ^ 54\<close> (0.30000000000000004), and a third of
  that lies nearer to the next binary64 number than to 0.1.
\<close>

theorem average_of_copies_counterexample:
  "round64 (1/10) = 3602879701896397 / 36028797018963968
   \<and> float64_add (float64_add (3602879701896397 / 36028797018963968)
          (3602879701896397 / 36028797018963968)) (3602879701896397 / 36028797018963968)
        = 5404319552844596 / 18014398509481984
   \<and> ciu_data tenth_obj = [[3602879701896397 / 36028797018963968]]
   \<and> (case average_ciu float64_add float64_div_count Map.empty [tenth_obj, tenth_obj, tenth_obj]
              example_params ''/out'' of
        Inl e \<Rightarrow> False
      | Inr (avg, fs') \<Rightarrow>
          ciu_data avg = [[7205759403792795 / 72057594037927936]]
          \<and> ciu_data avg \<noteq> ciu_data tenth_obj)"
proof -
  have d: "ciu_data tenth_obj = [[3602879701896397 / 36028797018963968]]"
    by (simp add: tenth_obj_def spec_analysis_obj_def)
  have p: "params tenth_obj \<noteq> None"
    by (simp add: tenth_obj_def spec_analysis_obj_def)
  have "\<exists>avg fs'. average_ciu float64_add float64_div_count Map.empty [tenth_obj, tenth_obj, tenth_obj]
            example_params ''/out'' = Inr (avg, fs')
      \<and> ciu_data avg = map (map (\<lambda>x. arithmetic_mean float64_add float64_div_count
            (replicate (length [tenth_obj, tenth_obj, tenth_obj]) x)))
            [[3602879701896397 / 36028797018963968]]"
    by (rule average_ciu_copies) (simp_all add: d p is_array_def shape_def)
  then obtain avg fs' where avg:
    "average_ciu float64_add float64_div_count Map.empty [tenth_obj, tenth_obj, tenth_obj]
            example_params ''/out'' = Inr (avg, fs')"
    "ciu_data avg = [[7205759403792795 / 72057594037927936]]"
    by (auto simp: tenth_thrice)
  show ?thesis
    by (simp add: tenth_is_double tenth_sum d avg)
qed

text \<open>
  Claim C6, amended. For every non-empty list of analysis objects holding the same
  two-dimensional array \<open>M\<close> (the first object carrying its parameters), \<open>average_ciu\<close>
  returns a matrix of the shape of \<open>M\<close> whose entries are the arithmetic means of as many
  copies of the entries of \<open>M\<close>, in the arithmetic of the entries; it is \<open>M\<close> itself
  wherever that mean of copies of an entry is the entry, and so always in exact
  arithmetic.
\<close>

theorem average_of_copies:
  "(objs \<noteq> [] \<and> list_all (\<lambda>obj. ciu_data obj = M) objs \<and> is_array M
      \<and> params (hd objs) \<noteq> None \<longrightarrow>
      (\<exists>avg fs'. average_ciu add div_count fs objs params_obj output_dir = Inr (avg, fs')
         \<and> ciu_data avg
             = map (map (\<lambda>x. arithmetic_mean add div_count (replicate (length objs) x))) M
         \<and> (list_all (list_all (\<lambda>x. arithmetic_mean add div_count
                                       (replicate (length objs) x) = x)) M
              \<longrightarrow> ciu_data avg = M)))
   \<and> (robjs \<noteq> [] \<and> list_all (\<lambda>obj. ciu_data obj = R) robjs \<and> is_array R
      \<and> params (hd robjs) \<noteq> None \<longrightarrow>
      (\<exists>avg fs'. average_ciu (+) exact_div_count rfs robjs rparams_obj routput_dir
                    = Inr (avg, fs')
         \<and> ciu_data avg = R))"
proof (intro conjI impI)
  assume a: "objs \<noteq> [] \<and> list_all (\<lambda>obj. ciu_data obj = M) objs \<and> is_array M
      \<and> params (hd objs) \<noteq> None"
  then obtain avg fs' where avg:
    "average_ciu add div_count fs objs params_obj output_dir = Inr (avg, fs')"
    "ciu_data avg = map (map (\<lambda>x. arithmetic_mean add div_count (replicate (length objs) x))) M"
    using average_ciu_copies [of objs M add div_count fs params_obj output_dir] by blast
  have "ciu_data avg = M"
    if "list_all (list_all (\<lambda>x. arithmetic_mean add div_count (replicate (length objs) x) = x)) M"
  proof -
    from that have "map (map (\<lambda>x. arithmetic_mean add div_count (replicate (length objs) x))) M
        = map (map (\<lambda>x. x)) M"
      by (intro map_cong refl) (auto simp: list_all_iff)
    then show ?thesis by (simp add: avg)
  qed
  with avg show "\<exists>avg fs'. average_ciu add div_count fs objs params_obj output_dir = Inr (avg, fs')
         \<and> ciu_data avg
             = map (map (\<lambda>x. arithmetic_mean add div_count (replicate (length objs) x))) M
         \<and> (list_all (list_all (\<lambda>x. arithmetic_mean add div_count
                                       (replicate (length objs) x) = x)) M
              \<longrightarrow> ciu_data avg = M)"
    by blast
next
  assume a: "robjs \<noteq> [] \<and> list_all (\<lambda>obj. ciu_data obj = R) robjs \<and> is_array R
      \<and> params (hd robjs) \<noteq> None"
  then obtain n where n: "length robjs = Suc n" by (cases robjs) auto
  from a obtain avg fs' where avg:
    "average_ciu (+) exact_div_count rfs robjs rparams_obj routput_dir = Inr (avg, fs')"
    "ciu_data avg = map (map (\<lambda>x. arithmetic_mean (+) exact_div_count
                                     (replicate (length robjs) x))) R"
    using average_ciu_copies [of robjs R "(+)" exact_div_count rfs rparams_obj routput_dir]
    by blast
  have "ciu_data avg = R"
    unfolding avg(2) n exact_mean_copies by simp
  with avg(1) show "\<exists>avg fs'. average_ciu (+) exact_div_count rfs robjs rparams_obj routput_dir
                    = Inr (avg, fs') \<and> ciu_data avg = R"
    by blast
qed

text \<open>
  The theorem at three copies of the example object, whose entries 1, 1/2 and 1/4
  binary64 averages without rounding.
\<close>

theorem average_of_copies_witness:
  "([example_obj, example_obj, example_obj] \<noteq> []
      \<and> list_all (\<lambda>obj. ciu_data obj = ciu_data example_obj)
            [example_obj, example_obj, example_obj]
      \<and> is_array (ciu_data example_obj)
      \<and> params (hd [example_obj, example_obj, example_obj]) \<noteq> None)
   \<and> list_all (list_all (\<lambda>x. arithmetic_mean float64_add float64_div_count
              (replicate (length [example_obj, example_obj, example_obj]) x) = x))
         (ciu_data example_obj)
   \<and> (\<exists>avg fs'. average_ciu float64_add float64_div_count Map.empty
                    [example_obj, example_obj, example_obj] example_params ''/out''
                  = Inr (avg, fs')
         \<and> ciu_data avg = ciu_data example_obj)
   \<and> (\<exists>avg fs'. average_ciu (+) exact_div_count Map.empty
                    [example_obj, example_obj, example_obj] example_params ''/out''
                  = Inr (avg, fs')
         \<and> ciu_data avg = ciu_data example_obj)"
proof -
  have h: "[example_obj, example_obj, example_obj] \<noteq> []
      \<and> list_all (\<lambda>obj. ciu_data obj = ciu_data example_obj)
            [example_obj, example_obj, example_obj]
      \<and> is_array (ciu_data example_obj)
      \<and> params (hd [example_obj, example_obj, example_obj]) \<noteq> None"
    by (simp add: obj_defs is_array_def shape_def)
  have x: "list_all (list_all (\<lambda>x. arithmetic_mean float64_add float64_div_count
              (replicate (length [example_obj, example_obj, example_obj]) x) = x))
         (ciu_data example_obj)"
    by (simp add: obj_defs dyadic_thrice)
  from average_of_copies [of "[example_obj, example_obj, example_obj]" "ciu_data example_obj"
      float64_add float64_div_count Map.empty example_params "''/out''"
      "[example_obj, example_obj, example_obj]" "ciu_data example_obj"
      Map.empty example_params "''/out''"] h x
  show ?thesis by blast
qed




end
